theory Spec2Isabelle
  imports Complex_Main "HOL-Library.Multiset"
begin

section \<open>Data model of the vitals overview component\<close>

text \<open>
  The component \<^verbatim>\<open>VitalsOverview\<close> (vitals-overview.component.tsx) is embedded
  function by function. A JavaScript number is modelled by a rational: the values arrive
  as JSON numbers, which are finite, so neither NaN nor an infinity is modelled, and
  \<open>a - b\<close> stands for the subtraction of the source. An optional field is an
  \<open>option\<close>: \<open>None\<close> is \<^verbatim>\<open>undefined\<close> (or \<^verbatim>\<open>null\<close>), and
  \<open>Some 0\<close> is a recorded zero. The only exception the modelled code can raise is the
  \<^verbatim>\<open>TypeError\<close> of reading a property of \<^verbatim>\<open>undefined\<close>.
\<close>

type_synonym number = rat

datatype error = TypeError

text \<open>
  One measurement record, with the fields the component reads. The field \<open>date\<close> holds
  the epoch milliseconds that \<^verbatim>\<open>new Date(date).getTime()\<close> yields for the record's
  date.
\<close>

record vitals =
  vitals_id :: string
  date :: int
  temperature :: "number option"
  systolic :: "number option"
  diastolic :: "number option"
  pulse :: "number option"
  respiratoryRate :: "number option"
  spo2 :: "number option"
  bloodPressureRenderInterpretation :: "string option"
  pulseRenderInterpretation :: "string option"
  spo2RenderInterpretation :: "string option"
  temperatureRenderInterpretation :: "string option"
  respiratoryRateRenderInterpretation :: "string option"

text \<open>
  A rendered cell is the raw number or a string: \<^verbatim>\<open>vitalSigns.pulse ?? '--'\<close> has
  the type \<^verbatim>\<open>number | string\<close>.
\<close>

datatype cell = Num number | Str string

text \<open>
  A table row is the record spread (\<^verbatim>\<open>...vitalSigns\<close>) and extended by the render
  fields.
\<close>

record row = vitals +
  dateRender :: string
  bloodPressureRender :: string
  pulseRender :: cell
  spo2Render :: cell
  temperatureRender :: cell
  respiratoryRateRender :: cell

section \<open>Column comparators (tableHeaders, sortFunc)\<close>

text \<open>
  \<^verbatim>\<open>a && b ? a - b : 0\<close>: the guard is JavaScript truthiness, under which
  \<^verbatim>\<open>undefined\<close> and the number \<open>0\<close> are both false.
\<close>

definition date_sortFunc :: "row \<Rightarrow> row \<Rightarrow> number" where
  "date_sortFunc valueA valueB = of_int (date valueA) - of_int (date valueB)"

definition temperature_sortFunc :: "row \<Rightarrow> row \<Rightarrow> number" where
  "temperature_sortFunc valueA valueB =
     (case (temperature valueA, temperature valueB) of
        (Some a, Some b) \<Rightarrow> if a \<noteq> 0 \<and> b \<noteq> 0 then a - b else 0
      | _ \<Rightarrow> 0)"

definition bloodPressure_sortFunc :: "row \<Rightarrow> row \<Rightarrow> number" where
  "bloodPressure_sortFunc valueA valueB =
     (case (systolic valueA, systolic valueB, diastolic valueA, diastolic valueB) of
        (Some sa, Some sb, Some da, Some db) \<Rightarrow>
          if sa \<noteq> 0 \<and> sb \<noteq> 0 \<and> da \<noteq> 0 \<and> db \<noteq> 0
          then (if sa \<noteq> sb then sa - sb else da - db)
          else 0
      | _ \<Rightarrow> 0)"

definition pulse_sortFunc :: "row \<Rightarrow> row \<Rightarrow> number" where
  "pulse_sortFunc valueA valueB =
     (case (pulse valueA, pulse valueB) of
        (Some a, Some b) \<Rightarrow> if a \<noteq> 0 \<and> b \<noteq> 0 then a - b else 0
      | _ \<Rightarrow> 0)"

definition respiratoryRate_sortFunc :: "row \<Rightarrow> row \<Rightarrow> number" where
  "respiratoryRate_sortFunc valueA valueB =
     (case (respiratoryRate valueA, respiratoryRate valueB) of
        (Some a, Some b) \<Rightarrow> if a \<noteq> 0 \<and> b \<noteq> 0 then a - b else 0
      | _ \<Rightarrow> 0)"

definition spo2_sortFunc :: "row \<Rightarrow> row \<Rightarrow> number" where
  "spo2_sortFunc valueA valueB =
     (case (spo2 valueA, spo2 valueB) of
        (Some a, Some b) \<Rightarrow> if a \<noteq> 0 \<and> b \<noteq> 0 then a - b else 0
      | _ \<Rightarrow> 0)"

section \<open>Row normalisation (tableRows)\<close>

text \<open>
  \<^verbatim>\<open>x ?? '--'\<close> keeps every value but \<^verbatim>\<open>undefined\<close> and \<^verbatim>\<open>null\<close>; inside
  a template literal the number is converted to a string. The conversion of the language
  (\<open>numToString\<close>) and the date formatter of the framework (\<open>formatDate\<close>, applied to
  the parsed date) are parameters.
\<close>

definition orPlaceholder :: "number option \<Rightarrow> cell" where
  "orPlaceholder v = (case v of None \<Rightarrow> Str ''--'' | Some x \<Rightarrow> Num x)"

definition templatePart :: "(number \<Rightarrow> string) \<Rightarrow> number option \<Rightarrow> string" where
  "templatePart numToString v = (case v of None \<Rightarrow> ''--'' | Some x \<Rightarrow> numToString x)"

definition displayRow :: "(int \<Rightarrow> string) \<Rightarrow> (number \<Rightarrow> string) \<Rightarrow> vitals \<Rightarrow> row" where
  "displayRow formatDate numToString vitalSigns =
     vitals.extend vitalSigns
       (row.fields
          (formatDate (date vitalSigns))
          (templatePart numToString (systolic vitalSigns) @ '' / '' @
           templatePart numToString (diastolic vitalSigns))
          (orPlaceholder (pulse vitalSigns))
          (orPlaceholder (spo2 vitalSigns))
          (orPlaceholder (temperature vitalSigns))
          (orPlaceholder (respiratoryRate vitalSigns)))"

text \<open>
  The callback of the memo, \<^verbatim>\<open>() => vitals?.map(...)\<close>: an undefined sequence gives
  undefined rows.
\<close>

definition normalizeRows ::
  "(int \<Rightarrow> string) \<Rightarrow> (number \<Rightarrow> string) \<Rightarrow> vitals list option \<Rightarrow> row list option" where
  "normalizeRows formatDate numToString contents =
     map_option (map (displayRow formatDate numToString)) contents"

text \<open>
  An array is an object: a reference together with the contents it holds now, which
  \<^verbatim>\<open>sort\<close> changes in place. \<^verbatim>\<open>useMemo(callback, [vitals])\<close> compares the value
  of \<^verbatim>\<open>vitals\<close> with the one of the previous render by identity: for the same array
  object (or \<^verbatim>\<open>undefined\<close> both times) it returns the rows of the previous render
  without looking at the contents, otherwise it calls the callback. The memo cell holds
  the dependency last seen and the rows computed for it; before the first render there
  is no cell. \<open>tableRows\<close> returns the cell after the render, whose second component
  is the value of \<^verbatim>\<open>tableRows\<close> in that render.
\<close>

type_synonym reference = nat

type_synonym 'a js_array = "reference \<times> 'a list"

type_synonym memo_cell = "reference option \<times> row list option"

definition tableRows ::
  "(int \<Rightarrow> string) \<Rightarrow> (number \<Rightarrow> string) \<Rightarrow> memo_cell option \<Rightarrow> vitals js_array option \<Rightarrow>
   memo_cell" where
  "tableRows formatDate numToString memo vitals =
     (let dep = map_option fst vitals;
          recomputed = (dep, normalizeRows formatDate numToString (map_option snd vitals))
      in case memo of
           None \<Rightarrow> recomputed
         | Some (seen, rows) \<Rightarrow> if seen = dep then (seen, rows) else recomputed)"

section \<open>Configuration and patient summary\<close>

text \<open>
  The configuration object as the component reads it: every section and every key may be
  absent.
\<close>

record vitals_config =
  cfg_showPrintButton :: "bool option"

record concepts_config =
  temperatureUuid :: "string option"
  systolicBloodPressureUuid :: "string option"
  pulseUuid :: "string option"
  respiratoryRateUuid :: "string option"
  oxygenSaturationUuid :: "string option"

record exclusion_config =
  uuids :: "string list option"

record config =
  vitalsConfig :: "vitals_config option"
  conceptsConfig :: "concepts_config option"
  excludePatientIdentifierCodeTypes :: "exclusion_config option"

text \<open>
  \<^verbatim>\<open>config.vitals.showPrintButton && !chartView\<close>. Reading the flag of an absent
  \<^verbatim>\<open>vitals\<close> section throws; an absent flag makes the value \<^verbatim>\<open>undefined\<close>
  (\<open>None\<close>). The button is rendered when the value is truthy.
\<close>

definition showPrintButton :: "config \<Rightarrow> bool \<Rightarrow> error + bool option" where
  "showPrintButton config chartView =
     (case vitalsConfig config of
        None \<Rightarrow> Inl TypeError
      | Some v \<Rightarrow>
          Inr (case cfg_showPrintButton v of
                 None \<Rightarrow> None
               | Some flag \<Rightarrow> if flag then Some (\<not> chartView) else Some False))"

definition truthy :: "bool option \<Rightarrow> bool" where
  "truthy v = (case v of None \<Rightarrow> False | Some b \<Rightarrow> b)"

text \<open>The part of \<^verbatim>\<open>fhir.Patient\<close> that the component reads.\<close>

record fhir_coding =
  code :: "string option"

record fhir_codeable =
  coding :: "fhir_coding list option"

record fhir_identifier =
  ident_type :: "fhir_codeable option"
  ident_value :: "string option"

record fhir_address =
  city :: "string option"

record patient =
  patient_id :: "string option"
  birthDate :: "string option"
  gender :: "string option"
  patient_identifier :: "fhir_identifier list option"
  address :: "fhir_address list option"

text \<open>\<^verbatim>\<open>identifier.type.coding[0].code\<close>\<close>

definition codeOf :: "fhir_identifier \<Rightarrow> error + string option" where
  "codeOf idf =
     (case ident_type idf of
        None \<Rightarrow> Inl TypeError
      | Some ty \<Rightarrow>
          (case coding ty of
             None \<Rightarrow> Inl TypeError
           | Some [] \<Rightarrow> Inl TypeError
           | Some (c # _) \<Rightarrow> Inr (code c)))"

text \<open>
  \<^verbatim>\<open>excludePatientIdentifierCodeTypes?.uuids.includes(identifier.type.coding[0].code)\<close>,
  read as a truth value. When the section is absent the optional chain stops at once:
  neither \<^verbatim>\<open>includes\<close> nor its argument is evaluated, and the value is
  \<^verbatim>\<open>undefined\<close>. When the section is present and \<^verbatim>\<open>uuids\<close> is not, looking up
  \<^verbatim>\<open>includes\<close> throws.
\<close>

definition isExcluded :: "exclusion_config option \<Rightarrow> fhir_identifier \<Rightarrow> error + bool" where
  "isExcluded excl idf =
     (case excl of
        None \<Rightarrow> Inr False
      | Some e \<Rightarrow>
          (case uuids e of
             None \<Rightarrow> Inl TypeError
           | Some us \<Rightarrow>
               (case codeOf idf of
                  Inl err \<Rightarrow> Inl err
                | Inr c \<Rightarrow> Inr (case c of None \<Rightarrow> False | Some s \<Rightarrow> s \<in> set us))))"

text \<open>\<^verbatim>\<open>Array.prototype.filter\<close> with a callback that may throw.\<close>

fun filterIdentifiers ::
  "exclusion_config option \<Rightarrow> fhir_identifier list \<Rightarrow> error + fhir_identifier list" where
  "filterIdentifiers excl [] = Inr []"
| "filterIdentifiers excl (idf # rest) =
     (case isExcluded excl idf of
        Inl err \<Rightarrow> Inl err
      | Inr excluded \<Rightarrow>
          (case filterIdentifiers excl rest of
             Inl err \<Rightarrow> Inl err
           | Inr kept \<Rightarrow> Inr (if excluded then kept else idf # kept)))"

text \<open>\<^verbatim>\<open>patient?.identifier?.filter(...) ?? []\<close>\<close>

definition identifiers ::
  "exclusion_config option \<Rightarrow> patient option \<Rightarrow> error + fhir_identifier list" where
  "identifiers excl patient =
     (case patient of
        None \<Rightarrow> Inr []
      | Some p \<Rightarrow>
          (case patient_identifier p of
             None \<Rightarrow> Inr []
           | Some ids \<Rightarrow> filterIdentifiers excl ids))"

definition getGender :: "(string \<Rightarrow> string \<Rightarrow> string) \<Rightarrow> string option \<Rightarrow> string option" where
  "getGender t g =
     (if g = Some ''male'' then Some (t ''male'' ''Male'')
      else if g = Some ''female'' then Some (t ''female'' ''Female'')
      else if g = Some ''other'' then Some (t ''other'' ''Other'')
      else if g = Some ''unknown'' then Some (t ''unknown'' ''Unknown'')
      else g)"

text \<open>\<^verbatim>\<open>patient?.address?.[0].city\<close>\<close>

definition location :: "patient option \<Rightarrow> error + string option" where
  "location patient =
     (case patient of
        None \<Rightarrow> Inr None
      | Some p \<Rightarrow>
          (case address p of
             None \<Rightarrow> Inr None
           | Some [] \<Rightarrow> Inl TypeError
           | Some (a # _) \<Rightarrow> Inr (city a)))"

record 'a patient_details =
  details_name :: string
  details_age :: 'a
  details_gender :: "string option"
  details_location :: "string option"
  details_identifiers :: "string option list"

text \<open>
  The memoised \<^verbatim>\<open>patientDetails\<close>. The translation lookup \<open>t\<close> and the framework
  functions \<open>getPatientName\<close> and \<open>age\<close> are parameters.
\<close>

definition patientDetails ::
  "(string \<Rightarrow> string \<Rightarrow> string) \<Rightarrow> (patient \<Rightarrow> string) \<Rightarrow> (string option \<Rightarrow> 'a) \<Rightarrow>
   config \<Rightarrow> patient option \<Rightarrow> error + 'a patient_details" where
  "patientDetails t getPatientName age config patient =
     (case identifiers (excludePatientIdentifierCodeTypes config) patient of
        Inl err \<Rightarrow> Inl err
      | Inr ids \<Rightarrow>
          (case location patient of
             Inl err \<Rightarrow> Inl err
           | Inr loc \<Rightarrow>
               Inr \<lparr> details_name = (case patient of None \<Rightarrow> [] | Some p \<Rightarrow> getPatientName p),
                     details_age = age (case patient of None \<Rightarrow> None | Some p \<Rightarrow> birthDate p),
                     details_gender =
                       getGender t (case patient of None \<Rightarrow> None | Some p \<Rightarrow> gender p),
                     details_location = loc,
                     details_identifiers = map ident_value ids \<rparr>))"

section \<open>Unit resolution and column headers\<close>

text \<open>
  \<^verbatim>\<open>conceptUnits.get(uuid) ?? ''\<close>. The mapping is supplied by the hook
  \<^verbatim>\<open>useConceptUnits\<close>; while it loads it holds fewer entries, possibly none.
\<close>

definition unitOf :: "(string \<rightharpoonup> string) \<Rightarrow> string option \<Rightarrow> string" where
  "unitOf conceptUnits uuid =
     (case uuid of
        None \<Rightarrow> []
      | Some u \<Rightarrow> (case conceptUnits u of None \<Rightarrow> [] | Some unit \<Rightarrow> unit))"

text \<open>
  Modelled from the spec: \<^verbatim>\<open>withUnit\<close> is imported from \<^verbatim>\<open>../common\<close>, which is
  not among the sources. The specification builds a header by concatenating the translated
  label with the resolved unit, as in \<^verbatim>\<open>Temp (C)\<close>, and gives the label alone, with no
  dangling parentheses or space, when the unit is the empty string.
\<close>

definition withUnit :: "string \<Rightarrow> string \<Rightarrow> string" where
  "withUnit label unit = (if unit = [] then label else label @ '' ('' @ unit @ '')'')"

record column =
  key :: string
  header :: string
  isSortable :: bool
  sortFunc :: "row \<Rightarrow> row \<Rightarrow> number"

definition tableHeaders ::
  "(string \<Rightarrow> string \<Rightarrow> string) \<Rightarrow> (string \<rightharpoonup> string) \<Rightarrow> config \<Rightarrow> error + column list" where
  "tableHeaders t conceptUnits config =
     (case conceptsConfig config of
        None \<Rightarrow> Inl TypeError
      | Some c \<Rightarrow>
          Inr [
            \<lparr> key = ''dateRender'',
              header = t ''dateAndTime'' ''Date and time'',
              isSortable = True,
              sortFunc = date_sortFunc \<rparr>,
            \<lparr> key = ''temperatureRender'',
              header = withUnit (t ''temperatureAbbreviated'' ''Temp'')
                         (unitOf conceptUnits (temperatureUuid c)),
              isSortable = True,
              sortFunc = temperature_sortFunc \<rparr>,
            \<lparr> key = ''bloodPressureRender'',
              header = withUnit (t ''bloodPressureAbbreviated'' ''BP'')
                         (unitOf conceptUnits (systolicBloodPressureUuid c)),
              isSortable = True,
              sortFunc = bloodPressure_sortFunc \<rparr>,
            \<lparr> key = ''pulseRender'',
              header = withUnit (t ''pulse'' ''Pulse'') (unitOf conceptUnits (pulseUuid c)),
              isSortable = True,
              sortFunc = pulse_sortFunc \<rparr>,
            \<lparr> key = ''respiratoryRateRender'',
              header = withUnit (t ''respiratoryRateAbbreviated'' ''R. Rate'')
                         (unitOf conceptUnits (respiratoryRateUuid c)),
              isSortable = True,
              sortFunc = respiratoryRate_sortFunc \<rparr>,
            \<lparr> key = ''spo2Render'',
              header = withUnit (t ''spo2'' ''SpO2'')
                         (unitOf conceptUnits (oxygenSaturationUuid c)),
              isSortable = True,
              sortFunc = spo2_sortFunc \<rparr>
          ])"

section \<open>The Open Clinical path (getSortedBP, handleOpenClinical)\<close>

text \<open>
  \<^verbatim>\<open>Array.prototype.sort(compareFn)\<close> sorts the array it is called on and is stable:
  an element stays before the later elements that the comparator does not put before it.
  It is modelled by an insertion sort that inserts from the right.
\<close>

fun insertBy :: "('a \<Rightarrow> 'a \<Rightarrow> number) \<Rightarrow> 'a \<Rightarrow> 'a list \<Rightarrow> 'a list" where
  "insertBy compareFn x [] = [x]"
| "insertBy compareFn x (y # ys) =
     (if compareFn x y \<le> 0 then x # y # ys else y # insertBy compareFn x ys)"

definition js_sort :: "('a \<Rightarrow> 'a \<Rightarrow> number) \<Rightarrow> 'a list \<Rightarrow> 'a list" where
  "js_sort compareFn xs = foldr (insertBy compareFn) xs []"

definition byDateDescending :: "vitals \<Rightarrow> vitals \<Rightarrow> number" where
  "byDateDescending vitalA vitalB = of_int (date vitalB) - of_int (date vitalA)"

text \<open>\<^verbatim>\<open>vital.systolic > 0 && vital.diastolic > 0\<close>; \<^verbatim>\<open>undefined > 0\<close> is false.\<close>

definition hasBP :: "vitals \<Rightarrow> bool" where
  "hasBP vital =
     ((case systolic vital of None \<Rightarrow> False | Some s \<Rightarrow> s > 0) \<and>
      (case diastolic vital of None \<Rightarrow> False | Some d \<Rightarrow> d > 0))"

text \<open>
  \<open>getSortedBP\<close> takes the contents of the array \<^verbatim>\<open>vitals\<close> and returns the
  contents of that same array after the call, which \<^verbatim>\<open>sort\<close> has reordered, paired
  with the new array that \<^verbatim>\<open>filter\<close> returns. Calling \<^verbatim>\<open>sort\<close> on
  \<^verbatim>\<open>undefined\<close> throws.
\<close>

definition getSortedBP :: "vitals list option \<Rightarrow> error + (vitals list \<times> vitals list)" where
  "getSortedBP vitals =
     (case vitals of
        None \<Rightarrow> Inl TypeError
      | Some vs \<Rightarrow>
          (let sortedVitals = js_sort byDateDescending vs
           in Inr (sortedVitals, filter hasBP sortedVitals)))"

text \<open>String concatenation converts \<^verbatim>\<open>undefined\<close> to the text \<^verbatim>\<open>undefined\<close>.\<close>

definition jsString :: "string option \<Rightarrow> string" where
  "jsString v = (case v of None \<Rightarrow> ''undefined'' | Some s \<Rightarrow> s)"

definition jsNumString :: "(number \<Rightarrow> string) \<Rightarrow> number option \<Rightarrow> string" where
  "jsNumString numToString v = (case v of None \<Rightarrow> ''undefined'' | Some x \<Rightarrow> numToString x)"

text \<open>
  \<open>handleOpenClinical\<close> returns the URL assigned to \<^verbatim>\<open>window.location.href\<close> and
  the contents of the array \<^verbatim>\<open>vitals\<close> after the call.
\<close>

definition handleOpenClinical ::
  "(number \<Rightarrow> string) \<Rightarrow> patient option \<Rightarrow> vitals list option \<Rightarrow>
   error + (string \<times> vitals list)" where
  "handleOpenClinical numToString patient vitals =
     (case getSortedBP vitals of
        Inl err \<Rightarrow> Inl err
      | Inr (sortedVitals, bp) \<Rightarrow>
          (case patient of
             None \<Rightarrow> Inl TypeError
           | Some p \<Rightarrow>
               (case bp of
                  [] \<Rightarrow> Inl TypeError
                | b # _ \<Rightarrow>
                    Inr (''http://localhost:22221/digipath/matt/ht_demo?dob='' @
                         jsString (birthDate p) @
                         ''&gender='' @
                         jsString (gender p) @
                         ''&sbp='' @
                         jsNumString numToString (systolic b) @
                         ''&dbp='' @
                         jsNumString numToString (diastolic b) @
                         ''&id='' @
                         jsString (patient_id p),
                         sortedVitals))))"

section \<open>Render branches\<close>

datatype action = HandlePrint | LaunchVitalsBiometricsForm | HandleOpenClinical

text \<open>
  What the widget card shows: the background-fetch indicator, the selected switch index,
  the print button (when \<^verbatim>\<open>showPrintButton\<close> is truthy), the add button, the chart or
  the table, and the Open Clinical button.
\<close>

record widgetCard =
  inlineLoading :: bool
  selectedIndex :: nat
  printButton :: "action option"
  addButton :: action
  chartShown :: bool
  openClinicalButton :: "action option"

text \<open>
  The four things the component can render: the skeleton, the error state (with the error
  and the header title), the widget card, and the empty state (with its display text, its
  header title and the action its form launcher runs).
\<close>

datatype 'e view =
    DataTableSkeleton
  | ErrorState 'e string
  | WidgetCard widgetCard
  | EmptyState string string action

text \<open>
  The immediately invoked function of lines 203 to 282. It returns the view and the
  contents of the array \<^verbatim>\<open>vitals\<close> afterwards: the widget branch calls
  \<open>getSortedBP\<close>, which sorts the array.
\<close>

definition renderBranches ::
  "string \<Rightarrow> string \<Rightarrow> bool \<Rightarrow> 'e option \<Rightarrow> vitals list option \<Rightarrow> bool \<Rightarrow> bool \<Rightarrow>
   bool option \<Rightarrow> error + ('e view \<times> vitals list option)" where
  "renderBranches headerTitle displayText isLoading error vitals isValidating chartView
     showPrint =
     (if isLoading then Inr (DataTableSkeleton, vitals)
      else case error of
        Some e \<Rightarrow> Inr (ErrorState e headerTitle, vitals)
      | None \<Rightarrow>
          if (case vitals of None \<Rightarrow> False | Some vs \<Rightarrow> length vs \<noteq> 0) then
            (case getSortedBP vitals of
               Inl err \<Rightarrow> Inl err
             | Inr (sortedVitals, bp) \<Rightarrow>
                 Inr (WidgetCard
                        \<lparr> inlineLoading = isValidating,
                          selectedIndex = (if chartView then 1 else 0),
                          printButton = (if truthy showPrint then Some HandlePrint else None),
                          addButton = LaunchVitalsBiometricsForm,
                          chartShown = chartView,
                          openClinicalButton =
                            (if length bp > 0 then Some HandleOpenClinical else None) \<rparr>,
                      Some sortedVitals))
          else Inr (EmptyState displayText headerTitle LaunchVitalsBiometricsForm, vitals))"

text \<open>
  One render of the component, as far as the rows and the array are concerned. The memo of
  \<^verbatim>\<open>tableRows\<close> (line 132) is evaluated before the render branches (line 203), so it
  reads the array before \<open>getSortedBP\<close> sorts it in this render. The render returns
  the memo cell, the view, and the array \<^verbatim>\<open>vitals\<close> afterwards: the same object, with
  the contents the render branches left. The values computed earlier in the component
  (the titles, \<^verbatim>\<open>showPrintButton\<close>) and the hook results are parameters.
\<close>

definition VitalsOverview ::
  "(int \<Rightarrow> string) \<Rightarrow> (number \<Rightarrow> string) \<Rightarrow> string \<Rightarrow> string \<Rightarrow> bool \<Rightarrow> 'e option \<Rightarrow> bool \<Rightarrow>
   bool \<Rightarrow> bool option \<Rightarrow> memo_cell option \<Rightarrow> vitals js_array option \<Rightarrow>
   error + (memo_cell \<times> 'e view \<times> vitals js_array option)" where
  "VitalsOverview formatDate numToString headerTitle displayText isLoading error isValidating
     chartView showPrint memo vitals =
     (let rowsCell = tableRows formatDate numToString memo vitals
      in case renderBranches headerTitle displayText isLoading error (map_option snd vitals)
                isValidating chartView showPrint of
           Inl err \<Rightarrow> Inl err
         | Inr (view, contents) \<Rightarrow>
             Inr (rowsCell, view,
                  (case (vitals, contents) of
                     (Some (r, _), Some vs) \<Rightarrow> Some (r, vs)
                   | _ \<Rightarrow> None)))"

section \<open>The print cycle\<close>

text \<open>
  The state the print handlers share: the React state \<^verbatim>\<open>isPrinting\<close> as last set,
  its value in the last committed render (the dependency the effect compares against),
  the reference \<^verbatim>\<open>onBeforeGetContentResolve.current\<close>, the promises whose
  \<^verbatim>\<open>resolve\<close> has been called, in that order, and the number of promises created
  so far. A promise is named by its creation index, so the reference holds the index of the
  promise whose \<^verbatim>\<open>resolve\<close> it stores. The printing library starts capturing the
  content when the promise that \<^verbatim>\<open>onBeforeGetContent\<close> returned is resolved, so
  \<open>resolved\<close> lists the captures started.
\<close>

record cycle_state =
  isPrinting :: bool
  committed :: bool
  onBeforeGetContentResolve :: "nat option"
  resolved :: "nat list"
  promises :: nat

definition initial :: cycle_state where
  "initial = \<lparr> isPrinting = False, committed = False, onBeforeGetContentResolve = None,
               resolved = [], promises = 0 \<rparr>"

text \<open>
  \<open>onBeforeGetContent\<close> creates a promise; when \<^verbatim>\<open>patient && headerTitle\<close> holds
  (\<open>ready\<close>) it stores the promise's \<^verbatim>\<open>resolve\<close> in the reference and sets
  \<^verbatim>\<open>isPrinting\<close>.
\<close>

definition onBeforeGetContent :: "bool \<Rightarrow> cycle_state \<Rightarrow> cycle_state" where
  "onBeforeGetContent ready s =
     (let p = promises s; s' = s\<lparr>promises := Suc p\<rparr>
      in if ready then s'\<lparr>onBeforeGetContentResolve := Some p, isPrinting := True\<rparr> else s')"

text \<open>Calling \<^verbatim>\<open>resolve\<close> settles a pending promise and does nothing to a settled one.\<close>

definition resolve :: "nat \<Rightarrow> cycle_state \<Rightarrow> cycle_state" where
  "resolve p s = (if p \<in> set (resolved s) then s else s\<lparr>resolved := resolved s @ [p]\<rparr>)"

text \<open>The body of the effect that depends on \<^verbatim>\<open>isPrinting\<close>.\<close>

definition effect :: "cycle_state \<Rightarrow> cycle_state" where
  "effect s =
     (if isPrinting s then
        (case onBeforeGetContentResolve s of None \<Rightarrow> s | Some p \<Rightarrow> resolve p s)
      else s)"

text \<open>
  A committed render runs the effect when \<^verbatim>\<open>isPrinting\<close> differs from its value in
  the previous committed render.
\<close>

definition commit :: "cycle_state \<Rightarrow> cycle_state" where
  "commit s =
     (if isPrinting s \<noteq> committed s then effect (s\<lparr>committed := isPrinting s\<rparr>) else s)"

definition onAfterPrint :: "cycle_state \<Rightarrow> cycle_state" where
  "onAfterPrint s = s\<lparr>onBeforeGetContentResolve := None, isPrinting := False\<rparr>"

text \<open>
  The events of the component's life that touch this state: a print request (the library
  calls \<open>onBeforeGetContent\<close>), a committed render, and the end of a print (the library
  calls \<open>onAfterPrint\<close>).
\<close>

datatype event = PrintRequest bool | Commit | AfterPrint

fun step :: "cycle_state \<Rightarrow> event \<Rightarrow> cycle_state" where
  "step s (PrintRequest ready) = onBeforeGetContent ready s"
| "step s Commit = commit s"
| "step s AfterPrint = onAfterPrint s"

definition run :: "cycle_state \<Rightarrow> event list \<Rightarrow> cycle_state" where
  "run s events = foldl step s events"

text \<open>
  The state between two print cycles: nothing is being printed, the last committed render
  saw that, no resolver is armed, and every resolved promise has been created.
\<close>

definition idle :: "cycle_state \<Rightarrow> bool" where
  "idle s = (\<not> isPrinting s \<and> \<not> committed s \<and> onBeforeGetContentResolve s = None \<and>
             list_all (\<lambda>p. p < promises s) (resolved s))"

text \<open>
  Every identifier of the patient, none excluded: \<^verbatim>\<open>patient?.identifier ?? []\<close>.
\<close>

definition allIdentifiers :: "patient option \<Rightarrow> fhir_identifier list" where
  "allIdentifiers patient =
     (case patient of
        None \<Rightarrow> []
      | Some p \<Rightarrow> (case patient_identifier p of None \<Rightarrow> [] | Some ids \<Rightarrow> ids))"

section \<open>Sample inputs\<close>

text \<open>A record with no measurement; the examples below set the fields they need.\<close>

definition unrecorded :: vitals where
  "unrecorded = \<lparr> vitals_id = [], date = 0, temperature = None, systolic = None,
     diastolic = None, pulse = None, respiratoryRate = None, spo2 = None,
     bloodPressureRenderInterpretation = None, pulseRenderInterpretation = None,
     spo2RenderInterpretation = None, temperatureRenderInterpretation = None,
     respiratoryRateRenderInterpretation = None \<rparr>"

section \<open>Properties of the row normaliser and of the comparators\<close>

lemma displayRow_fields [simp]:
  "temperature (displayRow fd ns v) = temperature v"
  "systolic (displayRow fd ns v) = systolic v"
  "diastolic (displayRow fd ns v) = diastolic v"
  "pulse (displayRow fd ns v) = pulse v"
  "respiratoryRate (displayRow fd ns v) = respiratoryRate v"
  "spo2 (displayRow fd ns v) = spo2 v"
  "date (displayRow fd ns v) = date v"
  by (simp_all add: displayRow_def vitals.defs row.defs)

lemma displayRow_truncate [simp]: "vitals.truncate (displayRow fd ns v) = v"
  by (simp add: displayRow_def vitals.defs row.defs)

lemma displayRow_renders:
  "dateRender (displayRow fd ns v) = fd (date v)"
  "bloodPressureRender (displayRow fd ns v) =
     templatePart ns (systolic v) @ '' / '' @ templatePart ns (diastolic v)"
  "pulseRender (displayRow fd ns v) = orPlaceholder (pulse v)"
  "spo2Render (displayRow fd ns v) = orPlaceholder (spo2 v)"
  "temperatureRender (displayRow fd ns v) = orPlaceholder (temperature v)"
  "respiratoryRateRender (displayRow fd ns v) = orPlaceholder (respiratoryRate v)"
  by (simp_all add: displayRow_def vitals.defs row.defs)

lemmas sortFunc_defs = temperature_sortFunc_def pulse_sortFunc_def
  respiratoryRate_sortFunc_def spo2_sortFunc_def

lemma numeric_sortFunc_absent:
  "temperature a = None \<or> temperature b = None \<Longrightarrow> temperature_sortFunc a b = 0"
  "pulse a = None \<or> pulse b = None \<Longrightarrow> pulse_sortFunc a b = 0"
  "respiratoryRate a = None \<or> respiratoryRate b = None \<Longrightarrow> respiratoryRate_sortFunc a b = 0"
  "spo2 a = None \<or> spo2 b = None \<Longrightarrow> spo2_sortFunc a b = 0"
  by (auto simp: sortFunc_defs split: option.splits)

lemma numeric_sortFunc_nonzero:
  "temperature a = Some x \<Longrightarrow> temperature b = Some y \<Longrightarrow> x \<noteq> 0 \<Longrightarrow> y \<noteq> 0 \<Longrightarrow>
     temperature_sortFunc a b = x - y"
  "pulse a = Some x \<Longrightarrow> pulse b = Some y \<Longrightarrow> x \<noteq> 0 \<Longrightarrow> y \<noteq> 0 \<Longrightarrow>
     pulse_sortFunc a b = x - y"
  "respiratoryRate a = Some x \<Longrightarrow> respiratoryRate b = Some y \<Longrightarrow> x \<noteq> 0 \<Longrightarrow> y \<noteq> 0 \<Longrightarrow>
     respiratoryRate_sortFunc a b = x - y"
  "spo2 a = Some x \<Longrightarrow> spo2 b = Some y \<Longrightarrow> x \<noteq> 0 \<Longrightarrow> y \<noteq> 0 \<Longrightarrow>
     spo2_sortFunc a b = x - y"
  by (simp_all add: sortFunc_defs)

lemma numeric_sortFunc_zero:
  "temperature a = Some 0 \<or> temperature b = Some 0 \<Longrightarrow> temperature_sortFunc a b = 0"
  "pulse a = Some 0 \<or> pulse b = Some 0 \<Longrightarrow> pulse_sortFunc a b = 0"
  "respiratoryRate a = Some 0 \<or> respiratoryRate b = Some 0 \<Longrightarrow> respiratoryRate_sortFunc a b = 0"
  "spo2 a = Some 0 \<or> spo2 b = Some 0 \<Longrightarrow> spo2_sortFunc a b = 0"
  by (auto simp: sortFunc_defs split: option.splits)

lemma bloodPressure_sortFunc_absent:
  "systolic a = None \<or> systolic b = None \<or> diastolic a = None \<or> diastolic b = None \<Longrightarrow>
   bloodPressure_sortFunc a b = 0"
  by (auto simp: bloodPressure_sortFunc_def split: option.splits)

lemma bloodPressure_sortFunc_nonzero:
  "systolic a = Some sa \<Longrightarrow> systolic b = Some sb \<Longrightarrow> diastolic a = Some da \<Longrightarrow>
   diastolic b = Some db \<Longrightarrow> sa \<noteq> 0 \<Longrightarrow> sb \<noteq> 0 \<Longrightarrow> da \<noteq> 0 \<Longrightarrow> db \<noteq> 0 \<Longrightarrow>
   bloodPressure_sortFunc a b = (if sa \<noteq> sb then sa - sb else da - db)"
  by (simp add: bloodPressure_sortFunc_def)

lemma bloodPressure_sortFunc_zero:
  "systolic a = Some 0 \<or> systolic b = Some 0 \<or> diastolic a = Some 0 \<or> diastolic b = Some 0 \<Longrightarrow>
   bloodPressure_sortFunc a b = 0"
  by (auto simp: bloodPressure_sortFunc_def split: option.splits)

lemma bloodPressure_tie_break:
  "bloodPressure_sortFunc
     (displayRow (\<lambda>_. []) (\<lambda>_. []) (unrecorded\<lparr>systolic := Some 120, diastolic := Some 80\<rparr>))
     (displayRow (\<lambda>_. []) (\<lambda>_. []) (unrecorded\<lparr>systolic := Some 120, diastolic := Some 70\<rparr>)) = 10"
  by (simp add: bloodPressure_sortFunc_def unrecorded_def)

text \<open>
  With a recorded zero the comparator is not an ordering: a pulse of 0 compares equal to
  both 80 and 60, which the comparator tells apart.
\<close>

lemma pulse_sortFunc_inconsistent:
  "pulse_sortFunc (displayRow (\<lambda>_. []) (\<lambda>_. []) (unrecorded\<lparr>pulse := Some 0\<rparr>))
     (displayRow (\<lambda>_. []) (\<lambda>_. []) (unrecorded\<lparr>pulse := Some 80\<rparr>)) = 0 \<and>
   pulse_sortFunc (displayRow (\<lambda>_. []) (\<lambda>_. []) (unrecorded\<lparr>pulse := Some 0\<rparr>))
     (displayRow (\<lambda>_. []) (\<lambda>_. []) (unrecorded\<lparr>pulse := Some 60\<rparr>)) = 0 \<and>
   pulse_sortFunc (displayRow (\<lambda>_. []) (\<lambda>_. []) (unrecorded\<lparr>pulse := Some 80\<rparr>))
     (displayRow (\<lambda>_. []) (\<lambda>_. []) (unrecorded\<lparr>pulse := Some 60\<rparr>)) = 20"
  by (simp add: pulse_sortFunc_def unrecorded_def)

text \<open>
  C1. The temperature, pulse, respiratory-rate and SpO2 comparators are claimed to return
  the numeric difference whenever both fields are present, a recorded zero counting as
  present. The guard of the code is truthiness, so a recorded zero is taken for an absent
  value: with one operand zero the comparator yields 0, although the difference of the two
  recorded values is not 0.
\<close>

theorem numeric_sortFunc_recorded_zero:
  "temperature_sortFunc
     (displayRow (\<lambda>_. []) (\<lambda>_. []) (unrecorded\<lparr>temperature := Some 0\<rparr>))
     (displayRow (\<lambda>_. []) (\<lambda>_. []) (unrecorded\<lparr>temperature := Some 37\<rparr>)) = 0 \<and>
   pulse_sortFunc
     (displayRow (\<lambda>_. []) (\<lambda>_. []) (unrecorded\<lparr>pulse := Some 0\<rparr>))
     (displayRow (\<lambda>_. []) (\<lambda>_. []) (unrecorded\<lparr>pulse := Some 80\<rparr>)) = 0 \<and>
   respiratoryRate_sortFunc
     (displayRow (\<lambda>_. []) (\<lambda>_. []) (unrecorded\<lparr>respiratoryRate := Some 16\<rparr>))
     (displayRow (\<lambda>_. []) (\<lambda>_. []) (unrecorded\<lparr>respiratoryRate := Some 0\<rparr>)) = 0 \<and>
   spo2_sortFunc
     (displayRow (\<lambda>_. []) (\<lambda>_. []) (unrecorded\<lparr>spo2 := Some 0\<rparr>))
     (displayRow (\<lambda>_. []) (\<lambda>_. []) (unrecorded\<lparr>spo2 := Some 97\<rparr>)) = 0 \<and>
   (0::number) - 37 \<noteq> 0 \<and> (0::number) - 80 \<noteq> 0 \<and> (16::number) - 0 \<noteq> 0 \<and>
   (0::number) - 97 \<noteq> 0"
  by (simp add: sortFunc_defs unrecorded_def)

text \<open>
  C2. The blood-pressure comparator is claimed to return the systolic difference when the
  systolic values differ. With a recorded systolic of zero on one side and all four values
  present, the systolic values differ and the comparator yields 0, not their difference:
  the same truthiness guard as for the other columns.
\<close>

theorem bloodPressure_sortFunc_recorded_zero:
  "bloodPressure_sortFunc
     (displayRow (\<lambda>_. []) (\<lambda>_. []) (unrecorded\<lparr>systolic := Some 0, diastolic := Some 80\<rparr>))
     (displayRow (\<lambda>_. []) (\<lambda>_. []) (unrecorded\<lparr>systolic := Some 120, diastolic := Some 80\<rparr>)) = 0 \<and>
   (0::number) \<noteq> 120 \<and> (0::number) - 120 \<noteq> 0"
  by (simp add: bloodPressure_sortFunc_def unrecorded_def)

text \<open>
  C3. For every record the normaliser renders an absent temperature, pulse, respiratory
  rate or SpO2 as the placeholder \<^verbatim>\<open>--\<close> and a present one (zero included) as the raw
  number, and it renders the blood pressure as the systolic and the diastolic part joined
  by \<^verbatim>\<open> / \<close>, each part replaced by the placeholder on its own when absent.
\<close>

theorem displayRow_placeholders:
  "(temperature v = None \<longrightarrow> temperatureRender (displayRow fd ns v) = Str ''--'') \<and>
   (temperature v = Some x \<longrightarrow> temperatureRender (displayRow fd ns v) = Num x) \<and>
   (pulse v = None \<longrightarrow> pulseRender (displayRow fd ns v) = Str ''--'') \<and>
   (pulse v = Some x \<longrightarrow> pulseRender (displayRow fd ns v) = Num x) \<and>
   (respiratoryRate v = None \<longrightarrow> respiratoryRateRender (displayRow fd ns v) = Str ''--'') \<and>
   (respiratoryRate v = Some x \<longrightarrow> respiratoryRateRender (displayRow fd ns v) = Num x) \<and>
   (spo2 v = None \<longrightarrow> spo2Render (displayRow fd ns v) = Str ''--'') \<and>
   (spo2 v = Some x \<longrightarrow> spo2Render (displayRow fd ns v) = Num x) \<and>
   bloodPressureRender (displayRow fd ns v) =
     (case systolic v of None \<Rightarrow> ''--'' | Some s \<Rightarrow> ns s) @ '' / '' @
     (case diastolic v of None \<Rightarrow> ''--'' | Some d \<Rightarrow> ns d)"
  by (simp add: displayRow_renders orPlaceholder_def templatePart_def)

theorem displayRow_placeholders_witness:
  "temperature (unrecorded\<lparr>systolic := Some 120, pulse := Some 0\<rparr>) = None \<and>
   temperatureRender (displayRow (\<lambda>_. []) (\<lambda>_. ''120'')
       (unrecorded\<lparr>systolic := Some 120, pulse := Some 0\<rparr>)) = Str ''--'' \<and>
   pulse (unrecorded\<lparr>systolic := Some 120, pulse := Some 0\<rparr>) = Some 0 \<and>
   pulseRender (displayRow (\<lambda>_. []) (\<lambda>_. ''120'')
       (unrecorded\<lparr>systolic := Some 120, pulse := Some 0\<rparr>)) = Num 0 \<and>
   bloodPressureRender (displayRow (\<lambda>_. []) (\<lambda>_. ''120'')
       (unrecorded\<lparr>systolic := Some 120, pulse := Some 0\<rparr>)) = ''120 / --''"
  using displayRow_placeholders
    [of "unrecorded\<lparr>systolic := Some 120, pulse := Some 0\<rparr>" "\<lambda>_. []" "\<lambda>_. ''120''" 0]
  by (simp add: unrecorded_def)

section \<open>Configuration defaults\<close>

lemma filterIdentifiers_no_exclusion: "filterIdentifiers None ids = Inr ids"
  by (induction ids) (simp_all add: isExcluded_def)

lemma identifiers_no_exclusion: "identifiers None patient = Inr (allIdentifiers patient)"
  by (simp add: identifiers_def allIdentifiers_def filterIdentifiers_no_exclusion
      split: option.splits)

text \<open>
  An exclusion section that is present without its \<^verbatim>\<open>uuids\<close> list throws as soon as
  one identifier is examined.
\<close>

lemma exclusion_without_uuids_throws:
  "identifiers (Some \<lparr> uuids = None \<rparr>)
     (Some \<lparr> patient_id = None, birthDate = None, gender = None,
             patient_identifier = Some [\<lparr> ident_type = None, ident_value = Some ''1'' \<rparr>],
             address = None \<rparr>) = Inl TypeError"
  by (simp add: identifiers_def isExcluded_def)

text \<open>
  C5, as stated. The claim lets any configuration key be absent without a throw.
  A configuration without the \<^verbatim>\<open>vitals\<close> section makes the derivation of
  \<^verbatim>\<open>showPrintButton\<close> throw a \<^verbatim>\<open>TypeError\<close>.
\<close>

theorem showPrintButton_absent_section:
  "showPrintButton \<lparr> vitalsConfig = None, conceptsConfig = None,
                     excludePatientIdentifierCodeTypes = None \<rparr> False = Inl TypeError"
  by (simp add: showPrintButton_def)

text \<open>
  C5, amended. When the \<^verbatim>\<open>vitals\<close> section is present and its print flag is absent,
  \<^verbatim>\<open>showPrintButton\<close> is derived without a throw and is falsy, so the button is
  hidden. When the exclusion section is absent, the identifier filter does not throw and
  keeps every identifier, whatever the identifiers hold, and \<^verbatim>\<open>patientDetails\<close>
  lists all their values whenever the patient's address can be read.
\<close>

theorem absent_flag_or_exclusion_disables:
  "(vitalsConfig config = Some v \<and> cfg_showPrintButton v = None \<longrightarrow>
      (\<exists>r. showPrintButton config chartView = Inr r \<and> \<not> truthy r)) \<and>
   (excludePatientIdentifierCodeTypes config = None \<longrightarrow>
      identifiers (excludePatientIdentifierCodeTypes config) patient =
        Inr (allIdentifiers patient) \<and>
      (location patient = Inr loc \<longrightarrow>
         (\<exists>d. patientDetails t getPatientName age config patient = Inr d \<and>
              details_identifiers d = map ident_value (allIdentifiers patient))))"
  by (auto simp: showPrintButton_def truthy_def patientDetails_def identifiers_no_exclusion)

theorem absent_flag_or_exclusion_disables_witness:
  "(\<exists>r. showPrintButton
          \<lparr> vitalsConfig = Some \<lparr> cfg_showPrintButton = None \<rparr>, conceptsConfig = None,
            excludePatientIdentifierCodeTypes = None \<rparr> False = Inr r \<and> \<not> truthy r) \<and>
   (\<exists>d. patientDetails (\<lambda>k f. f) (\<lambda>_. ''Ann'') (\<lambda>b. b)
          \<lparr> vitalsConfig = Some \<lparr> cfg_showPrintButton = None \<rparr>, conceptsConfig = None,
            excludePatientIdentifierCodeTypes = None \<rparr>
          (Some \<lparr> patient_id = Some ''p1'', birthDate = None, gender = Some ''female'',
                  patient_identifier =
                    Some [\<lparr> ident_type = None, ident_value = Some ''100GEJ'' \<rparr>],
                  address = None \<rparr>) = Inr d \<and>
        details_identifiers d = [Some ''100GEJ''])"
  using absent_flag_or_exclusion_disables
    [of "\<lparr> vitalsConfig = Some \<lparr> cfg_showPrintButton = None \<rparr>, conceptsConfig = None,
            excludePatientIdentifierCodeTypes = None \<rparr>"
        "\<lparr> cfg_showPrintButton = None \<rparr>" False
        "Some \<lparr> patient_id = Some ''p1'', birthDate = None, gender = Some ''female'',
                  patient_identifier =
                    Some [\<lparr> ident_type = None, ident_value = Some ''100GEJ'' \<rparr>],
                  address = None \<rparr>"
        None "\<lambda>k f. f" "\<lambda>_. ''Ann''" "\<lambda>b. b"]
  by (simp add: location_def allIdentifiers_def)

section \<open>Unit resolution\<close>

lemma mapped_unit_header:
  "withUnit ''Temp'' (unitOf [''5088'' \<mapsto> ''DEG C''] (Some ''5088'')) = ''Temp (DEG C)''"
  by (simp add: unitOf_def withUnit_def)

text \<open>
  C6. For a concept identifier that the unit mapping does not contain (as for every
  identifier while the mapping is still empty), unit resolution yields the empty string,
  the header built from it is the label alone, and so is the header of each column of
  \<^verbatim>\<open>tableHeaders\<close> whose configured concept is that identifier.
\<close>

theorem unmapped_unit_gives_bare_label:
  "conceptUnits u = None \<longrightarrow>
     unitOf conceptUnits (Some u) = [] \<and>
     withUnit label (unitOf conceptUnits (Some u)) = label \<and>
     (conceptsConfig config = Some c \<longrightarrow>
        (\<exists>cols. tableHeaders t conceptUnits config = Inr cols \<and> length cols = 6 \<and>
           (temperatureUuid c = Some u \<longrightarrow>
              header (cols ! 1) = t ''temperatureAbbreviated'' ''Temp'') \<and>
           (systolicBloodPressureUuid c = Some u \<longrightarrow>
              header (cols ! 2) = t ''bloodPressureAbbreviated'' ''BP'') \<and>
           (pulseUuid c = Some u \<longrightarrow> header (cols ! 3) = t ''pulse'' ''Pulse'') \<and>
           (respiratoryRateUuid c = Some u \<longrightarrow>
              header (cols ! 4) = t ''respiratoryRateAbbreviated'' ''R. Rate'') \<and>
           (oxygenSaturationUuid c = Some u \<longrightarrow> header (cols ! 5) = t ''spo2'' ''SpO2'')))"
  by (simp add: unitOf_def withUnit_def tableHeaders_def)

theorem unmapped_unit_gives_bare_label_witness:
  "unitOf Map.empty (Some ''5088'') = [] \<and>
   withUnit ''Temp'' (unitOf Map.empty (Some ''5088'')) = ''Temp'' \<and>
   (\<exists>cols. tableHeaders (\<lambda>k f. f) Map.empty
       \<lparr> vitalsConfig = None,
         conceptsConfig = Some \<lparr> temperatureUuid = Some ''5088'',
           systolicBloodPressureUuid = Some ''5085'', pulseUuid = Some ''5087'',
           respiratoryRateUuid = Some ''5242'', oxygenSaturationUuid = Some ''5092'' \<rparr>,
         excludePatientIdentifierCodeTypes = None \<rparr> = Inr cols \<and>
       header (cols ! 1) = ''Temp'')"
  using unmapped_unit_gives_bare_label
    [of Map.empty "''5088''" "''Temp''"
        "\<lparr> vitalsConfig = None,
         conceptsConfig = Some \<lparr> temperatureUuid = Some ''5088'',
           systolicBloodPressureUuid = Some ''5085'', pulseUuid = Some ''5087'',
           respiratoryRateUuid = Some ''5242'', oxygenSaturationUuid = Some ''5092'' \<rparr>,
         excludePatientIdentifierCodeTypes = None \<rparr>"
        "\<lparr> temperatureUuid = Some ''5088'',
           systolicBloodPressureUuid = Some ''5085'', pulseUuid = Some ''5087'',
           respiratoryRateUuid = Some ''5242'', oxygenSaturationUuid = Some ''5092'' \<rparr>"
        "\<lambda>k f. f"]
  by auto

section \<open>Render branches\<close>

text \<open>
  C7. When loading has finished, there is no fetch error and the record sequence is empty
  (or undefined), the component renders the empty state, whose form launcher opens the
  vitals form. The error state is rendered only when loading has finished and the fetch
  reported an error, and then always.
\<close>

theorem empty_dataset_routes_to_empty_state:
  "renderBranches headerTitle displayText False None (Some []) isValidating chartView showPrint =
     Inr (EmptyState displayText headerTitle LaunchVitalsBiometricsForm, Some []) \<and>
   renderBranches headerTitle displayText False None None isValidating chartView showPrint =
     Inr (EmptyState displayText headerTitle LaunchVitalsBiometricsForm, None) \<and>
   (renderBranches headerTitle displayText isLoading error vitals isValidating chartView
      showPrint = Inr (ErrorState e title, arr) \<longrightarrow>
      \<not> isLoading \<and> error = Some e) \<and>
   (\<not> isLoading \<and> error = Some e \<longrightarrow>
      renderBranches headerTitle displayText isLoading error vitals isValidating chartView
        showPrint = Inr (ErrorState e headerTitle, vitals))"
  by (auto simp: renderBranches_def getSortedBP_def Let_def split: option.splits if_splits)

theorem empty_dataset_routes_to_empty_state_witness:
  "renderBranches ''Vitals'' ''vital signs'' False (None :: string option) (Some []) False False
     (Some True) =
     Inr (EmptyState ''vital signs'' ''Vitals'' LaunchVitalsBiometricsForm, Some []) \<and>
   renderBranches ''Vitals'' ''vital signs'' False (Some ''fetch failed'') (Some []) False False
     (Some True) = Inr (ErrorState ''fetch failed'' ''Vitals'', Some [])"
  using empty_dataset_routes_to_empty_state
    [of "''Vitals''" "''vital signs''" False False "Some True" False "Some ''fetch failed''"
        "Some []" "''fetch failed''" "''Vitals''" "Some []"]
  by (simp add: renderBranches_def)

section \<open>The Open Clinical path\<close>

lemma insertBy_byDate:
  "insertBy byDateDescending x ys = insort_key (\<lambda>v. - date v) x ys"
  by (induction ys) (simp_all add: byDateDescending_def)

lemma js_sort_byDate: "js_sort byDateDescending xs = sort_key (\<lambda>v. - date v) xs"
  by (induction xs) (simp_all add: js_sort_def sort_key_def insertBy_byDate)

lemma mset_js_sort: "mset (js_sort byDateDescending xs) = mset xs"
  by (simp add: js_sort_byDate)

lemma set_js_sort: "set (js_sort byDateDescending xs) = set xs"
  by (simp add: js_sort_byDate)

lemma js_sort_descending: "sorted_wrt (\<lambda>a b. date b \<le> date a) (js_sort byDateDescending xs)"
proof -
  have "sorted (map (\<lambda>v. - date v) (sort_key (\<lambda>v. - date v) xs))"
    by (rule sorted_sort_key)
  then show ?thesis
    by (simp add: js_sort_byDate sorted_map)
qed

lemma js_sort_stable:
  "filter (\<lambda>v. date v = d) (js_sort byDateDescending xs) = filter (\<lambda>v. date v = d) xs"
  using sort_key_stable [of "\<lambda>v. - date v" "- d" xs] by (simp add: js_sort_byDate)

lemma hasBP_iff:
  "hasBP v \<longleftrightarrow> (\<exists>s d. systolic v = Some s \<and> 0 < s \<and> diastolic v = Some d \<and> 0 < d)"
  by (auto simp: hasBP_def split: option.splits)

text \<open>
  C9. \<open>getSortedBP\<close> leaves the shared array holding the same records, unchanged,
  sorted by descending date, and returns the records of that array whose systolic and
  diastolic values are both greater than zero: exactly those records of the input, in
  descending date order.
\<close>

theorem getSortedBP_sorts_shared_array:
  "\<exists>arr bp. getSortedBP (Some vs) = Inr (arr, bp) \<and>
     mset arr = mset vs \<and>
     sorted_wrt (\<lambda>a b. date b \<le> date a) arr \<and>
     bp = filter (\<lambda>v. \<exists>s d. systolic v = Some s \<and> 0 < s \<and> diastolic v = Some d \<and> 0 < d) arr \<and>
     mset bp =
       filter_mset (\<lambda>v. \<exists>s d. systolic v = Some s \<and> 0 < s \<and> diastolic v = Some d \<and> 0 < d)
         (mset vs) \<and>
     sorted_wrt (\<lambda>a b. date b \<le> date a) bp"
proof -
  let ?arr = "js_sort byDateDescending vs"
  have eq: "hasBP = (\<lambda>v. \<exists>s d. systolic v = Some s \<and> 0 < s \<and> diastolic v = Some d \<and> 0 < d)"
    by (rule ext) (rule hasBP_iff)
  have "getSortedBP (Some vs) = Inr (?arr, filter hasBP ?arr)"
    by (simp add: getSortedBP_def Let_def)
  moreover have "mset ?arr = mset vs"
    by (rule mset_js_sort)
  moreover have "sorted_wrt (\<lambda>a b. date b \<le> date a) ?arr"
    by (rule js_sort_descending)
  moreover have "mset (filter hasBP ?arr) = filter_mset hasBP (mset vs)"
    by (simp add: mset_js_sort)
  moreover have "sorted_wrt (\<lambda>a b. date b \<le> date a) (filter hasBP ?arr)"
    by (rule sorted_wrt_filter) (rule js_sort_descending)
  ultimately show ?thesis
    unfolding eq by blast
qed

theorem getSortedBP_sorts_shared_array_witness:
  "getSortedBP (Some [unrecorded\<lparr>date := 1, systolic := Some 120, diastolic := Some 80\<rparr>,
                      unrecorded\<lparr>date := 3\<rparr>,
                      unrecorded\<lparr>date := 2, systolic := Some 110, diastolic := Some 70\<rparr>]) =
     Inr ([unrecorded\<lparr>date := 3\<rparr>,
           unrecorded\<lparr>date := 2, systolic := Some 110, diastolic := Some 70\<rparr>,
           unrecorded\<lparr>date := 1, systolic := Some 120, diastolic := Some 80\<rparr>],
          [unrecorded\<lparr>date := 2, systolic := Some 110, diastolic := Some 70\<rparr>,
           unrecorded\<lparr>date := 1, systolic := Some 120, diastolic := Some 80\<rparr>])"
  using getSortedBP_sorts_shared_array
    [of "[unrecorded\<lparr>date := 1, systolic := Some 120, diastolic := Some 80\<rparr>,
          unrecorded\<lparr>date := 3\<rparr>,
          unrecorded\<lparr>date := 2, systolic := Some 110, diastolic := Some 70\<rparr>]"]
  by (simp add: getSortedBP_def js_sort_def byDateDescending_def hasBP_def unrecorded_def)

lemma hd_filter_sorted_latest:
  assumes "sorted_wrt (\<lambda>a b. date b \<le> date a) arr" "filter P arr = b # rest"
  shows "b \<in> set arr \<and> P b \<and> (\<forall>v \<in> set arr. P v \<longrightarrow> date v \<le> date b)"
proof -
  have s: "sorted_wrt (\<lambda>a b. date b \<le> date a) (b # rest)"
    using sorted_wrt_filter [OF assms(1), of P] assms(2) by simp
  have m: "set (b # rest) = {v \<in> set arr. P v}"
    using assms(2) [symmetric] by simp
  have "b \<in> set arr \<and> P b"
    using m by auto
  moreover have "date v \<le> date b" if "v \<in> set arr" "P v" for v
  proof -
    have "v \<in> set (b # rest)" using m that by blast
    then show ?thesis using s by auto
  qed
  ultimately show ?thesis by blast
qed

lemma handleOpenClinical_latest:
  assumes "\<exists>v \<in> set vs. hasBP v"
  shows "\<exists>b s d. handleOpenClinical ns (Some p) (Some vs) =
            Inr (''http://localhost:22221/digipath/matt/ht_demo?dob='' @ jsString (birthDate p) @
                 ''&gender='' @ jsString (gender p) @ ''&sbp='' @ ns s @ ''&dbp='' @
                 ns d @ ''&id='' @ jsString (patient_id p),
                 js_sort byDateDescending vs) \<and>
          b \<in> set vs \<and> systolic b = Some s \<and> 0 < s \<and> diastolic b = Some d \<and> 0 < d \<and>
          (\<forall>v \<in> set vs. hasBP v \<longrightarrow> date v \<le> date b)"
proof -
  let ?arr = "js_sort byDateDescending vs"
  have "filter hasBP ?arr \<noteq> []"
    using assms by (simp add: filter_empty_conv set_js_sort)
  then obtain b rest where bp: "filter hasBP ?arr = b # rest"
    by (cases "filter hasBP ?arr") auto
  from hd_filter_sorted_latest [OF js_sort_descending bp]
  have b: "b \<in> set vs" "hasBP b" "\<forall>v \<in> set vs. hasBP v \<longrightarrow> date v \<le> date b"
    by (simp_all add: set_js_sort)
  from b(2) obtain s d where sd: "systolic b = Some s" "0 < s" "diastolic b = Some d" "0 < d"
    unfolding hasBP_iff by blast
  have "handleOpenClinical ns (Some p) (Some vs) =
            Inr (''http://localhost:22221/digipath/matt/ht_demo?dob='' @ jsString (birthDate p) @
                 ''&gender='' @ jsString (gender p) @ ''&sbp='' @ ns s @ ''&dbp='' @
                 ns d @ ''&id='' @ jsString (patient_id p), ?arr)"
    by (simp add: handleOpenClinical_def getSortedBP_def Let_def bp sd jsNumString_def)
  with b sd show ?thesis by blast
qed

lemma renderBranches_widget:
  assumes "renderBranches ht dt isL err (Some vs) isV cv sp = Inr (WidgetCard w, arr)"
  shows "arr = Some (js_sort byDateDescending vs)"
    and "(openClinicalButton w = Some HandleOpenClinical) = (\<exists>v \<in> set vs. hasBP v)"
    and "\<not> isL" "err = None" "vs \<noteq> []"
  using assms
  by (auto simp: renderBranches_def getSortedBP_def Let_def filter_empty_conv set_js_sort
      split: if_splits option.splits)

lemma renderBranches_widget_iff:
  "(\<exists>w arr. renderBranches ht dt isL err (Some vs) isV cv sp = Inr (WidgetCard w, arr) \<and>
       openClinicalButton w = Some HandleOpenClinical) \<longleftrightarrow>
   (\<not> isL \<and> err = None \<and> (\<exists>v \<in> set vs. hasBP v))"
  by (auto simp: renderBranches_def getSortedBP_def Let_def filter_empty_conv set_js_sort
      split: if_splits option.splits)

text \<open>
  C10, as stated. The claim renders the button whenever some record has a systolic and a
  diastolic value greater than zero. The button belongs to the widget card, and the
  render branches return before the card while loading and on a fetch error: with such a
  record and a fetch error the component renders the error state, which has no button.
\<close>

theorem openClinical_button_absent_on_error:
  "renderBranches ''Vitals'' ''vital signs'' False (Some ''fetch failed'')
     (Some [unrecorded\<lparr>systolic := Some 120, diastolic := Some 80\<rparr>]) False False None =
     Inr (ErrorState ''fetch failed'' ''Vitals'',
          Some [unrecorded\<lparr>systolic := Some 120, diastolic := Some 80\<rparr>]) \<and>
   systolic (unrecorded\<lparr>systolic := Some 120, diastolic := Some 80\<rparr>) = Some 120 \<and>
   diastolic (unrecorded\<lparr>systolic := Some 120, diastolic := Some 80\<rparr>) = Some 80 \<and>
   (0 :: number) < 120 \<and> (0 :: number) < 80"
  by (simp add: renderBranches_def unrecorded_def)

text \<open>
  C10, amended. The widget card with the Open Clinical button is rendered exactly when
  loading has finished, there is no fetch error, and some record has a systolic and a
  diastolic value greater than zero. Clicking the button then navigates to the URL built
  from the patient's birth date, gender and id and from the systolic and diastolic values
  of a record that has both values greater than zero and whose date is the latest among
  such records.
\<close>

theorem openClinical_button_gated_and_url:
  "((\<exists>w arr. renderBranches headerTitle displayText isLoading error (Some vs) isValidating
        chartView showPrint = Inr (WidgetCard w, arr) \<and>
        openClinicalButton w = Some HandleOpenClinical) \<longleftrightarrow>
    (\<not> isLoading \<and> error = None \<and>
     (\<exists>v \<in> set vs. \<exists>s d. systolic v = Some s \<and> 0 < s \<and> diastolic v = Some d \<and> 0 < d))) \<and>
   (renderBranches headerTitle displayText isLoading error (Some vs) isValidating chartView
      showPrint = Inr (WidgetCard w, arr) \<and>
    openClinicalButton w = Some HandleOpenClinical \<longrightarrow>
      (\<exists>b s d arr'. handleOpenClinical numToString (Some p) arr =
            Inr (''http://localhost:22221/digipath/matt/ht_demo?dob='' @ jsString (birthDate p) @
                 ''&gender='' @ jsString (gender p) @ ''&sbp='' @ numToString s @ ''&dbp='' @
                 numToString d @ ''&id='' @ jsString (patient_id p), arr') \<and>
          b \<in> set vs \<and> systolic b = Some s \<and> 0 < s \<and> diastolic b = Some d \<and> 0 < d \<and>
          (\<forall>v \<in> set vs. (\<exists>s d. systolic v = Some s \<and> 0 < s \<and> diastolic v = Some d \<and> 0 < d)
              \<longrightarrow> date v \<le> date b)))"
proof (intro conjI impI)
  show "(\<exists>w arr. renderBranches headerTitle displayText isLoading error (Some vs) isValidating
        chartView showPrint = Inr (WidgetCard w, arr) \<and>
        openClinicalButton w = Some HandleOpenClinical) \<longleftrightarrow>
    (\<not> isLoading \<and> error = None \<and>
     (\<exists>v \<in> set vs. \<exists>s d. systolic v = Some s \<and> 0 < s \<and> diastolic v = Some d \<and> 0 < d))"
    unfolding renderBranches_widget_iff hasBP_iff ..
next
  assume a: "renderBranches headerTitle displayText isLoading error (Some vs) isValidating
      chartView showPrint = Inr (WidgetCard w, arr) \<and>
    openClinicalButton w = Some HandleOpenClinical"
  note w = renderBranches_widget [OF conjunct1 [OF a]]
  have "\<exists>v \<in> set (js_sort byDateDescending vs). hasBP v"
    using w(2) a by (simp add: set_js_sort)
  from handleOpenClinical_latest [OF this, of numToString p]
  show "\<exists>b s d arr'. handleOpenClinical numToString (Some p) arr =
            Inr (''http://localhost:22221/digipath/matt/ht_demo?dob='' @ jsString (birthDate p) @
                 ''&gender='' @ jsString (gender p) @ ''&sbp='' @ numToString s @ ''&dbp='' @
                 numToString d @ ''&id='' @ jsString (patient_id p), arr') \<and>
          b \<in> set vs \<and> systolic b = Some s \<and> 0 < s \<and> diastolic b = Some d \<and> 0 < d \<and>
          (\<forall>v \<in> set vs. (\<exists>s d. systolic v = Some s \<and> 0 < s \<and> diastolic v = Some d \<and> 0 < d)
              \<longrightarrow> date v \<le> date b)"
    unfolding w(1) hasBP_iff set_js_sort by blast
qed

theorem openClinical_button_gated_and_url_witness:
  "renderBranches ''Vitals'' ''vital signs'' False (None :: string option)
     (Some [unrecorded\<lparr>date := 1, systolic := Some 120, diastolic := Some 80\<rparr>,
            unrecorded\<lparr>date := 3\<rparr>,
            unrecorded\<lparr>date := 2, systolic := Some 110, diastolic := Some 70\<rparr>])
     False False None =
     Inr (WidgetCard \<lparr> inlineLoading = False, selectedIndex = 0, printButton = None,
                       addButton = LaunchVitalsBiometricsForm, chartShown = False,
                       openClinicalButton = Some HandleOpenClinical \<rparr>,
          Some [unrecorded\<lparr>date := 3\<rparr>,
                unrecorded\<lparr>date := 2, systolic := Some 110, diastolic := Some 70\<rparr>,
                unrecorded\<lparr>date := 1, systolic := Some 120, diastolic := Some 80\<rparr>]) \<and>
   handleOpenClinical (\<lambda>x. if x = 110 then ''110'' else if x = 70 then ''70'' else ''?'')
     (Some \<lparr> patient_id = Some ''p1'', birthDate = Some ''1980-01-01'',
             gender = Some ''female'', patient_identifier = None, address = None \<rparr>)
     (Some [unrecorded\<lparr>date := 3\<rparr>,
            unrecorded\<lparr>date := 2, systolic := Some 110, diastolic := Some 70\<rparr>,
            unrecorded\<lparr>date := 1, systolic := Some 120, diastolic := Some 80\<rparr>]) =
     Inr (''http://localhost:22221/digipath/matt/ht_demo?dob=1980-01-01&gender=female&sbp=110&dbp=70&id=p1'',
          [unrecorded\<lparr>date := 3\<rparr>,
           unrecorded\<lparr>date := 2, systolic := Some 110, diastolic := Some 70\<rparr>,
           unrecorded\<lparr>date := 1, systolic := Some 120, diastolic := Some 80\<rparr>])"
  using openClinical_button_gated_and_url
    [of "''Vitals''" "''vital signs''" False "None :: string option"
        "[unrecorded\<lparr>date := 1, systolic := Some 120, diastolic := Some 80\<rparr>,
          unrecorded\<lparr>date := 3\<rparr>,
          unrecorded\<lparr>date := 2, systolic := Some 110, diastolic := Some 70\<rparr>]"
        False False None
        "\<lparr> inlineLoading = False, selectedIndex = 0, printButton = None,
           addButton = LaunchVitalsBiometricsForm, chartShown = False,
           openClinicalButton = Some HandleOpenClinical \<rparr>"
        "Some [unrecorded\<lparr>date := 3\<rparr>,
               unrecorded\<lparr>date := 2, systolic := Some 110, diastolic := Some 70\<rparr>,
               unrecorded\<lparr>date := 1, systolic := Some 120, diastolic := Some 80\<rparr>]"
        "\<lambda>x. if x = 110 then ''110'' else if x = 70 then ''70'' else ''?''"
        "\<lparr> patient_id = Some ''p1'', birthDate = Some ''1980-01-01'',
           gender = Some ''female'', patient_identifier = None, address = None \<rparr>"]
  by (simp add: renderBranches_def handleOpenClinical_def getSortedBP_def js_sort_def
      byDateDescending_def hasBP_def truthy_def jsString_def jsNumString_def unrecorded_def)

section \<open>The memoised rows\<close>

text \<open>
  Whenever the memo calls its callback (in the first render, and when \<^verbatim>\<open>vitals\<close> is
  another object than in the previous render), the rows are the normalised records, one per
  record and in the order of the array at that moment. Otherwise the rows of the previous
  render are kept as they are.
\<close>

lemma normalizeRows_one_to_one:
  "normalizeRows fd ns None = None"
  "normalizeRows fd ns (Some vs) = Some (map (displayRow fd ns) vs)"
  "map vitals.truncate (map (displayRow fd ns) vs) = vs"
  by (simp_all add: normalizeRows_def comp_def)

lemma tableRows_recomputed:
  "tableRows fd ns None vitals =
     (map_option fst vitals, normalizeRows fd ns (map_option snd vitals))"
  "seen \<noteq> map_option fst vitals \<Longrightarrow>
   tableRows fd ns (Some (seen, rows)) vitals =
     (map_option fst vitals, normalizeRows fd ns (map_option snd vitals))"
  by (simp_all add: tableRows_def Let_def)

lemma tableRows_kept:
  "tableRows fd ns (Some (Some r, rows)) (Some (r, contents)) = (Some r, rows)"
  by (simp add: tableRows_def Let_def)

text \<open>
  Across renders with the same array the rows stay one per record: the array and the rows
  hold the same records, and equally many. Their order is not maintained.
\<close>

lemma VitalsOverview_keeps_records:
  assumes "VitalsOverview fd ns ht dt isL err isV cv sp memo (Some (r, vs)) =
             Inr (cell, view, vitals')"
    and "memo = None \<or> (\<exists>rows. memo = Some (Some r, Some rows) \<and>
           mset (map vitals.truncate rows) = mset vs)"
  shows "\<exists>rows' vs'. cell = (Some r, Some rows') \<and> vitals' = Some (r, vs') \<and>
           mset vs' = mset vs \<and> mset (map vitals.truncate rows') = mset vs' \<and>
           length rows' = length vs'"
proof -
  obtain view0 contents where rb:
    "renderBranches ht dt isL err (Some vs) isV cv sp = Inr (view0, contents)"
    using assms(1) by (auto simp: VitalsOverview_def Let_def split: sum.splits)
  have "contents = Some vs \<or> contents = Some (js_sort byDateDescending vs)"
    using rb
    by (auto simp: renderBranches_def getSortedBP_def Let_def split: if_splits option.splits)
  then obtain vs' where vs': "contents = Some vs'" "mset vs' = mset vs"
    using mset_js_sort by auto
  have cell: "cell = tableRows fd ns memo (Some (r, vs))" and out: "vitals' = Some (r, vs')"
    using assms(1) rb vs'(1) by (simp_all add: VitalsOverview_def Let_def)
  from assms(2) obtain rows' where rows':
    "cell = (Some r, Some rows')" "mset (map vitals.truncate rows') = mset vs"
  proof
    assume "memo = None"
    then have "cell = (Some r, Some (map (displayRow fd ns) vs))"
      unfolding cell by (simp add: tableRows_recomputed normalizeRows_one_to_one)
    then show ?thesis
      using that [of "map (displayRow fd ns) vs"] by (simp add: comp_def)
  next
    assume "\<exists>rows. memo = Some (Some r, Some rows) \<and> mset (map vitals.truncate rows) = mset vs"
    then obtain rows where "memo = Some (Some r, Some rows)"
      "mset (map vitals.truncate rows) = mset vs" by blast
    then show ?thesis
      using that [of rows] unfolding cell by (simp add: tableRows_kept)
  qed
  have "length rows' = length vs'"
    using rows'(2) vs'(2) by (metis length_map size_mset)
  with rows' vs' out show ?thesis by simp
qed


section \<open>The print cycle\<close>

lemma run_Nil [simp]: "run s [] = s"
  by (simp add: run_def)

lemma run_Cons [simp]: "run s (e # es) = run (step s e) es"
  by (simp add: run_def)

lemma run_append: "run s (es1 @ es2) = run (run s es1) es2"
  by (simp add: run_def)

lemma run_requests:
  "run s (replicate (Suc n) (PrintRequest True)) =
     s\<lparr>promises := promises s + Suc n,
       onBeforeGetContentResolve := Some (promises s + n),
       isPrinting := True\<rparr>"
proof (induction n arbitrary: s)
  case 0
  show ?case by (simp add: onBeforeGetContent_def Let_def)
next
  case (Suc n)
  have "run s (replicate (Suc (Suc n)) (PrintRequest True)) =
          run (onBeforeGetContent True s) (replicate (Suc n) (PrintRequest True))"
    by simp
  also have "\<dots> = s\<lparr>promises := promises s + Suc (Suc n),
       onBeforeGetContentResolve := Some (promises s + Suc n),
       isPrinting := True\<rparr>"
    unfolding Suc.IH by (simp add: onBeforeGetContent_def Let_def)
  finally show ?case .
qed

lemma step_promises_mono: "promises s \<le> promises (step s e)"
  by (cases e)
    (simp_all add: onBeforeGetContent_def Let_def commit_def effect_def resolve_def
      onAfterPrint_def split: option.splits)

lemma capturing_stable:
  "isPrinting s \<Longrightarrow> committed s \<Longrightarrow> AfterPrint \<notin> set es \<Longrightarrow>
   resolved (run s es) = resolved s \<and> isPrinting (run s es) \<and> committed (run s es) \<and>
   promises s \<le> promises (run s es)"
proof (induction es arbitrary: s)
  case Nil
  then show ?case by simp
next
  case (Cons e es)
  show ?case
  proof (cases e)
    case (PrintRequest ready)
    have "resolved (step s e) = resolved s" "isPrinting (step s e)" "committed (step s e)"
      using Cons.prems PrintRequest by (simp_all add: onBeforeGetContent_def Let_def)
    with Cons.IH [of "step s e"] Cons.prems step_promises_mono [of s e] show ?thesis
      by simp
  next
    case Commit
    have "step s e = s"
      using Cons.prems Commit by (simp add: commit_def)
    with Cons.IH [of s] Cons.prems show ?thesis by simp
  next
    case AfterPrint
    with Cons.prems show ?thesis by simp
  qed
qed

text \<open>
  C4, as stated. The claim makes a second request issued during a cycle a no-op. Nothing
  in the handlers guards a request. When two requests precede the render, the promise
  that is resolved, and so the capture that starts, is that of the second request, and the
  promise of the first is never resolved; one request alone resolves its own promise. A
  request issued while the first capture runs replaces the armed resolver by its own.
\<close>

theorem second_request_rearms:
  "resolved (run initial [PrintRequest True, PrintRequest True, Commit]) = [1] \<and>
   resolved (run initial [PrintRequest True, Commit]) = [0] \<and>
   onBeforeGetContentResolve (run initial [PrintRequest True, Commit]) = Some 0 \<and>
   onBeforeGetContentResolve (run initial [PrintRequest True, Commit, PrintRequest True]) = Some 1"
  by (simp add: initial_def onBeforeGetContent_def commit_def effect_def resolve_def Let_def)

text \<open>
  C4, amended. Every print request arms the resolver with its own promise. From an idle
  state, after one or more requests, a committed render, and then any further requests and
  renders before the print ends, exactly one capture has started: that of the last request
  before the render. The end of the print clears the resolver and resets
  \<^verbatim>\<open>isPrinting\<close>, and after the next render the state is idle again.
\<close>

theorem one_capture_per_cycle:
  assumes "idle s" and "AfterPrint \<notin> set es"
  shows "resolved (run s (replicate (Suc n) (PrintRequest True) @ Commit # es)) =
           resolved s @ [promises s + n] \<and>
         onBeforeGetContentResolve
           (onAfterPrint (run s (replicate (Suc n) (PrintRequest True) @ Commit # es))) = None \<and>
         \<not> isPrinting
           (onAfterPrint (run s (replicate (Suc n) (PrintRequest True) @ Commit # es))) \<and>
         idle (run s (replicate (Suc n) (PrintRequest True) @ Commit # es @ [AfterPrint, Commit]))"
proof -
  define s1 where "s1 = run s (replicate (Suc n) (PrintRequest True))"
  define s2 where "s2 = commit s1"
  define s3 where "s3 = run s2 es"
  have old: "list_all (\<lambda>p. p < promises s) (resolved s)"
    using assms(1) by (simp add: idle_def)
  then have fresh: "promises s + n \<notin> set (resolved s)"
    by (auto simp: list_all_iff)
  have s1: "isPrinting s1" "\<not> committed s1"
    "onBeforeGetContentResolve s1 = Some (promises s + n)" "resolved s1 = resolved s"
    "promises s1 = promises s + Suc n"
    using assms(1) unfolding s1_def run_requests by (simp_all add: idle_def)
  have s2: "isPrinting s2" "committed s2" "resolved s2 = resolved s @ [promises s + n]"
    "promises s2 = promises s + Suc n"
    using s1 fresh unfolding s2_def by (simp_all add: commit_def effect_def resolve_def)
  have s3: "resolved s3 = resolved s @ [promises s + n]" "isPrinting s3" "committed s3"
    "promises s + Suc n \<le> promises s3"
    using capturing_stable [of s2 es] s2 assms(2) unfolding s3_def by simp_all
  have r: "run s (replicate (Suc n) (PrintRequest True) @ Commit # es) = s3"
    by (simp add: run_append s1_def s2_def s3_def del: replicate.simps)
  have r': "run s (replicate (Suc n) (PrintRequest True) @ Commit # es @ [AfterPrint, Commit]) =
              commit (onAfterPrint s3)"
    by (simp add: run_append s1_def s2_def s3_def del: replicate.simps)
  have "list_all (\<lambda>p. p < promises s3) (resolved s3)"
    using old s3(1,4) by (auto simp: list_all_iff)
  then have "idle (commit (onAfterPrint s3))"
    using s3 by (simp add: idle_def commit_def effect_def onAfterPrint_def)
  then show ?thesis
    unfolding r r' using s3 by (simp add: onAfterPrint_def)
qed

theorem one_capture_per_cycle_witness:
  "idle initial \<and> AfterPrint \<notin> set [PrintRequest True, Commit] \<and>
   resolved (run initial (replicate (Suc 1) (PrintRequest True) @
       Commit # [PrintRequest True, Commit])) = [1] \<and>
   idle (run initial (replicate (Suc 1) (PrintRequest True) @
       Commit # [PrintRequest True, Commit] @ [AfterPrint, Commit]))"
proof -
  have h1: "idle initial"
    by (simp add: idle_def initial_def)
  have h2: "AfterPrint \<notin> set [PrintRequest True, Commit]"
    by simp
  show ?thesis
    using h1 h2 one_capture_per_cycle [OF h1 h2, of 1] by (simp add: initial_def)
qed

end
